theory Spec2Isabelle
  imports Main "HOL-Library.Word" "HOL-Library.Char_ord" "HOL-Library.List_Lexorder"
begin

section \<open>Data model of the status section (pkg/apis/clickhouse.altinity.com/v1)\<close>

text \<open>
  Go's \<^verbatim>\<open>int\<close> is a 64-bit machine integer: the host counters wrap around on increment.
  Go strings are byte sequences compared byte-wise, which is the lexicographic order of
  \<^typ>\<open>string\<close> over the byte order of \<^typ>\<open>char\<close>.
  Pointers to types declared outside the sources (\<^verbatim>\<open>*ClickHouseInstallation\<close>,
  \<^verbatim>\<open>*TemplateRef\<close>) are object identities; \<open>None\<close> is the nil pointer.
\<close>

type_synonym go_int = "64 word"
type_synonym cr_ref = nat
type_synonym template_ref = nat

definition maxActions :: nat where "maxActions = 10"
definition maxErrors :: nat where "maxErrors = 10"
definition maxTaskIDs :: nat where "maxTaskIDs = 10"

definition StatusInProgress :: string where "StatusInProgress = ''InProgress''"
definition StatusCompleted :: string where "StatusCompleted = ''Completed''"
definition StatusAborted :: string where "StatusAborted = ''Aborted''"
definition StatusTerminating :: string where "StatusTerminating = ''Terminating''"

text \<open>
  The build constants of package \<^verbatim>\<open>version\<close> (not among the sources) are a parameter of
  \<^verbatim>\<open>Fill\<close>.
\<close>

record version =
  Version :: string
  GitSHA :: string
  BuiltAt :: string

text \<open>
  \<^verbatim>\<open>types.CopyStatusOptions\<close>: the switches read by \<^verbatim>\<open>CopyFrom\<close>. The switches
  \<^verbatim>\<open>Actions\<close> and \<^verbatim>\<open>Errors\<close> share their names with fields of \<^verbatim>\<open>Status\<close>; below they
  are written qualified, \<open>CopyStatusOptions.Actions\<close> and \<open>CopyStatusOptions.Errors\<close>.
\<close>

record CopyStatusOptions =
  InheritableFields :: bool
  Actions :: bool
  Errors :: bool
  MainFields :: bool
  Normalized :: bool
  WholeStatus :: bool

record FillStatusParams =
  CHOpIP :: string
  ClustersCount :: go_int
  ShardsCount :: go_int
  HostsCount :: go_int
  TaskID :: string
  HostsUpdatedCount :: go_int
  HostsAddedCount :: go_int
  HostsUnchangedCount :: go_int
  HostsCompletedCount :: go_int
  HostsDeleteCount :: go_int
  HostsDeletedCount :: go_int
  Pods :: "string list"
  FQDNs :: "string list option"
  Endpoint :: string
  NormalizedCR :: "cr_ref option"

text \<open>
  The struct \<^verbatim>\<open>Status\<close> without its mutex (calls are modelled one at a time).
  Of the slice-valued fields only \<^verbatim>\<open>FQDNs\<close> is ever compared with nil
  (in \<^verbatim>\<open>SyncHostTablesCreated\<close>), so it alone keeps the difference between a nil slice
  (\<open>None\<close>) and an empty one (\<open>Some []\<close>). On the other slices the code only takes the
  length, appends, reslices and sorts, where a nil and an empty slice behave alike: both
  are the empty list. Slices are values here: two statuses are taken not to share a
  backing array, so that sorting the destination's history in place leaves the source
  as it is.
\<close>

record Status =
  CHOpVersion :: string
  CHOpCommit :: string
  CHOpDate :: string
  CHOpIP :: string
  ClustersCount :: go_int
  ShardsCount :: go_int
  ReplicasCount :: go_int
  HostsCount :: go_int
  Status :: string
  TaskID :: string
  TaskIDsStarted :: "string list"
  TaskIDsCompleted :: "string list"
  Action :: string
  Actions :: "string list"
  Error :: string
  Errors :: "string list"
  HostsUpdatedCount :: go_int
  HostsAddedCount :: go_int
  HostsUnchangedCount :: go_int
  HostsFailedCount :: go_int
  HostsCompletedCount :: go_int
  HostsDeletedCount :: go_int
  HostsDeleteCount :: go_int
  Pods :: "string list"
  PodIPs :: "string list"
  FQDNs :: "string list option"
  Endpoint :: string
  NormalizedCR :: "cr_ref option"
  NormalizedCRCompleted :: "cr_ref option"
  HostsWithTablesCreated :: "string list"
  UsedTemplates :: "template_ref option list"

text \<open>The zero value of the struct, as \<^verbatim>\<open>&Status{}\<close> creates it.\<close>

definition zeroStatus :: Status where
  "zeroStatus = \<lparr>CHOpVersion = [], CHOpCommit = [], CHOpDate = [], CHOpIP = [],
     ClustersCount = 0, ShardsCount = 0, ReplicasCount = 0, HostsCount = 0,
     Status = [], TaskID = [], TaskIDsStarted = [], TaskIDsCompleted = [],
     Action = [], Actions = [], Error = [], Errors = [],
     HostsUpdatedCount = 0, HostsAddedCount = 0, HostsUnchangedCount = 0,
     HostsFailedCount = 0, HostsCompletedCount = 0, HostsDeletedCount = 0,
     HostsDeleteCount = 0, Pods = [], PodIPs = [], FQDNs = None, Endpoint = [],
     NormalizedCR = None, NormalizedCRCompleted = None,
     HostsWithTablesCreated = [], UsedTemplates = []\<rparr>"

section \<open>Helpers of package util and of the standard library\<close>

text \<open>
  Modelled from the spec: \<^verbatim>\<open>util.InArray\<close> (package pkg/util is not among the sources).
  The table-created set is "deduplicated": a host already in it is not pushed again, so
  the test is membership of the needle in the haystack.
\<close>

definition InArray :: "string \<Rightarrow> string list \<Rightarrow> bool" where
  "InArray needle haystack = (needle \<in> set haystack)"

text \<open>
  Modelled from the spec: \<^verbatim>\<open>util.MergeStringArrays\<close> (package pkg/util is not among the
  sources). "Destination and source histories are unioned (duplicates collapsed)": the
  result holds every string of either array once. Its order does not matter to
  \<^verbatim>\<open>CopyFrom\<close>, which sorts the result.
\<close>

definition MergeStringArrays :: "string list \<Rightarrow> string list \<Rightarrow> string list" where
  "MergeStringArrays dst src = remdups (dst @ src)"

text \<open>
  Modelled from the spec: \<^verbatim>\<open>util.IntersectStringArrays\<close> (package pkg/util is not among
  the sources). "The intersection of its current contents with the live FQDN list": the
  entries of the first array that occur in the second.
\<close>

definition IntersectStringArrays :: "string list \<Rightarrow> string list \<Rightarrow> string list" where
  "IntersectStringArrays arr1 arr2 = filter (\<lambda>item. item \<in> set arr2) arr1"

text \<open>
  \<^verbatim>\<open>sort.Sort(sort.Reverse(sort.StringSlice(a)))\<close> of the standard library: the strings
  in descending byte-wise order. The sort is not stable, but equal strings cannot be told
  apart, so the result is determined.
\<close>

definition sortReverseStrings :: "string list \<Rightarrow> string list" where
  "sortReverseStrings a = rev (sort a)"

section \<open>The lock helpers\<close>

text \<open>
  A receiver \<^verbatim>\<open>*Status\<close> may be nil: it is a \<^typ>\<open>Status option\<close>. Each helper returns at
  once on a nil receiver and otherwise runs the closure on the pointed-to struct; a
  mutator returns the struct as the closure left it.
\<close>

definition doWithWriteLock :: "Status option \<Rightarrow> (Status \<Rightarrow> Status) \<Rightarrow> Status option" where
  "doWithWriteLock s f = (case s of None \<Rightarrow> None | Some st \<Rightarrow> Some (f st))"

text \<open>
  \<^verbatim>\<open>doWithReadLock\<close> runs a closure that reads \<open>s\<close> and has an effect on what it captured
  (in \<^verbatim>\<open>CopyFrom\<close>, the destination): \<open>acc\<close> is the captured state.
\<close>

definition doWithReadLock :: "Status option \<Rightarrow> (Status \<Rightarrow> 'a \<Rightarrow> 'a) \<Rightarrow> 'a \<Rightarrow> 'a" where
  "doWithReadLock s f acc = (case s of None \<Rightarrow> acc | Some st \<Rightarrow> f st acc)"

definition getIntWithReadLock :: "Status option \<Rightarrow> (Status \<Rightarrow> go_int) \<Rightarrow> go_int" where
  "getIntWithReadLock s f = (case s of None \<Rightarrow> 0 | Some st \<Rightarrow> f st)"

definition getStringWithReadLock :: "Status option \<Rightarrow> (Status \<Rightarrow> string) \<Rightarrow> string" where
  "getStringWithReadLock s f = (case s of None \<Rightarrow> [] | Some st \<Rightarrow> f st)"

definition getInstallationWithReadLock ::
  "Status option \<Rightarrow> (Status \<Rightarrow> cr_ref option) \<Rightarrow> cr_ref option" where
  "getInstallationWithReadLock s f = (case s of None \<Rightarrow> None | Some st \<Rightarrow> f st)"

definition getStringArrWithReadLock ::
  "Status option \<Rightarrow> (Status \<Rightarrow> string list) \<Rightarrow> string list" where
  "getStringArrWithReadLock s f = (case s of None \<Rightarrow> [] | Some st \<Rightarrow> f st)"

section \<open>Unsynchronised helpers\<close>

definition trimActionsNoSync :: "Status \<Rightarrow> Status" where
  "trimActionsNoSync s =
     (if length (Actions s) > maxActions then s\<lparr>Actions := take maxActions (Actions s)\<rparr>
      else s)"

definition mergeActionsNoSync :: "Status \<Rightarrow> Status \<Rightarrow> Status" where
  "mergeActionsNoSync s from =
     (let s1 = s\<lparr>Actions := MergeStringArrays (Actions s) (Actions from)\<rparr>;
          s2 = s1\<lparr>Actions := sortReverseStrings (Actions s1)\<rparr>
      in trimActionsNoSync s2)"

definition pushTaskIDStartedNoSync :: "Status \<Rightarrow> Status" where
  "pushTaskIDStartedNoSync s =
     (let s1 = s\<lparr>TaskIDsStarted := [TaskID s] @ TaskIDsStarted s\<rparr>
      in if length (TaskIDsStarted s1) > maxTaskIDs
         then s1\<lparr>TaskIDsStarted := take maxTaskIDs (TaskIDsStarted s1)\<rparr>
         else s1)"

definition pushTaskIDCompletedNoSync :: "Status \<Rightarrow> Status" where
  "pushTaskIDCompletedNoSync s =
     (let s1 = s\<lparr>TaskIDsCompleted := [TaskID s] @ TaskIDsCompleted s\<rparr>
      in if length (TaskIDsCompleted s1) > maxTaskIDs
         then s1\<lparr>TaskIDsCompleted := take maxTaskIDs (TaskIDsCompleted s1)\<rparr>
         else s1)"

section \<open>Mutators\<close>

text \<open>
  \<^verbatim>\<open>Fill\<close> dereferences \<open>params\<close> without a check: the model takes the struct pointed to.
\<close>

definition Fill :: "version \<Rightarrow> FillStatusParams \<Rightarrow> Status option \<Rightarrow> Status option" where
  "Fill ver params s = doWithWriteLock s (\<lambda>s. s\<lparr>
     CHOpVersion := Version ver,
     CHOpCommit := GitSHA ver,
     CHOpDate := BuiltAt ver,
     CHOpIP := FillStatusParams.CHOpIP params,
     ClustersCount := FillStatusParams.ClustersCount params,
     ShardsCount := FillStatusParams.ShardsCount params,
     HostsCount := FillStatusParams.HostsCount params,
     TaskID := FillStatusParams.TaskID params,
     HostsUpdatedCount := FillStatusParams.HostsUpdatedCount params,
     HostsAddedCount := FillStatusParams.HostsAddedCount params,
     HostsUnchangedCount := FillStatusParams.HostsUnchangedCount params,
     HostsCompletedCount := FillStatusParams.HostsCompletedCount params,
     HostsDeleteCount := FillStatusParams.HostsDeleteCount params,
     HostsDeletedCount := FillStatusParams.HostsDeletedCount params,
     Pods := FillStatusParams.Pods params,
     FQDNs := FillStatusParams.FQDNs params,
     Endpoint := FillStatusParams.Endpoint params,
     NormalizedCR := FillStatusParams.NormalizedCR params\<rparr>)"

definition SetError :: "string \<Rightarrow> Status option \<Rightarrow> Status option" where
  "SetError err s = doWithWriteLock s (\<lambda>s. s\<lparr>Error := err\<rparr>)"

definition SetAndPushError :: "string \<Rightarrow> Status option \<Rightarrow> Status option" where
  "SetAndPushError err s = doWithWriteLock s (\<lambda>s.
     let s1 = s\<lparr>Error := err\<rparr>;
         s2 = s1\<lparr>Errors := [err] @ Errors s1\<rparr>
     in if length (Errors s2) > maxErrors then s2\<lparr>Errors := take maxErrors (Errors s2)\<rparr>
        else s2)"

definition PushHostTablesCreated :: "string \<Rightarrow> Status option \<Rightarrow> Status option" where
  "PushHostTablesCreated host s = doWithWriteLock s (\<lambda>s.
     if InArray host (HostsWithTablesCreated s) then s
     else s\<lparr>HostsWithTablesCreated := HostsWithTablesCreated s @ [host]\<rparr>)"

definition SyncHostTablesCreated :: "Status option \<Rightarrow> Status option" where
  "SyncHostTablesCreated s = doWithWriteLock s (\<lambda>s.
     case FQDNs s of
       None \<Rightarrow> s
     | Some fqdns \<Rightarrow>
         s\<lparr>HostsWithTablesCreated := IntersectStringArrays (HostsWithTablesCreated s) fqdns\<rparr>)"

definition PushUsedTemplate :: "template_ref option \<Rightarrow> Status option \<Rightarrow> Status option" where
  "PushUsedTemplate templateRef s = doWithWriteLock s (\<lambda>s.
     s\<lparr>UsedTemplates := UsedTemplates s @ [templateRef]\<rparr>)"

definition SetAction :: "string \<Rightarrow> Status option \<Rightarrow> Status option" where
  "SetAction action s = doWithWriteLock s (\<lambda>s. s\<lparr>Action := action\<rparr>)"

definition PushAction :: "string \<Rightarrow> Status option \<Rightarrow> Status option" where
  "PushAction action s = doWithWriteLock s (\<lambda>s.
     trimActionsNoSync (s\<lparr>Actions := [action] @ Actions s\<rparr>))"

definition PushError :: "string \<Rightarrow> Status option \<Rightarrow> Status option" where
  "PushError error s = doWithWriteLock s (\<lambda>s.
     let s1 = s\<lparr>Errors := [error] @ Errors s\<rparr>
     in if length (Errors s1) > maxErrors then s1\<lparr>Errors := take maxErrors (Errors s1)\<rparr>
        else s1)"

definition SetPodIPs :: "string list \<Rightarrow> Status option \<Rightarrow> Status option" where
  "SetPodIPs podIPs s = doWithWriteLock s (\<lambda>s. s\<lparr>PodIPs := podIPs\<rparr>)"

definition HostDeleted :: "Status option \<Rightarrow> Status option" where
  "HostDeleted s = doWithWriteLock s (\<lambda>s. s\<lparr>HostsDeletedCount := HostsDeletedCount s + 1\<rparr>)"

definition HostUpdated :: "Status option \<Rightarrow> Status option" where
  "HostUpdated s = doWithWriteLock s (\<lambda>s. s\<lparr>HostsUpdatedCount := HostsUpdatedCount s + 1\<rparr>)"

definition HostAdded :: "Status option \<Rightarrow> Status option" where
  "HostAdded s = doWithWriteLock s (\<lambda>s. s\<lparr>HostsAddedCount := HostsAddedCount s + 1\<rparr>)"

definition HostUnchanged :: "Status option \<Rightarrow> Status option" where
  "HostUnchanged s =
     doWithWriteLock s (\<lambda>s. s\<lparr>HostsUnchangedCount := HostsUnchangedCount s + 1\<rparr>)"

definition HostFailed :: "Status option \<Rightarrow> Status option" where
  "HostFailed s = doWithWriteLock s (\<lambda>s. s\<lparr>HostsFailedCount := HostsFailedCount s + 1\<rparr>)"

definition HostCompleted :: "Status option \<Rightarrow> Status option" where
  "HostCompleted s =
     doWithWriteLock s (\<lambda>s. s\<lparr>HostsCompletedCount := HostsCompletedCount s + 1\<rparr>)"

text \<open>
  The closures of the next four mutators (and of \<^verbatim>\<open>CopyFrom\<close>) begin with a second nil
  check of the receiver. \<^verbatim>\<open>doWithWriteLock\<close> calls the closure on a non-nil receiver only,
  so that branch is never taken.
\<close>

definition ReconcileStart :: "go_int \<Rightarrow> Status option \<Rightarrow> Status option" where
  "ReconcileStart deleteHostsCount s = doWithWriteLock s (\<lambda>s.
     pushTaskIDStartedNoSync (s\<lparr>
       Status := StatusInProgress,
       HostsUpdatedCount := 0,
       HostsAddedCount := 0,
       HostsUnchangedCount := 0,
       HostsCompletedCount := 0,
       HostsDeletedCount := 0,
       HostsDeleteCount := deleteHostsCount\<rparr>))"

definition ReconcileComplete :: "Status option \<Rightarrow> Status option" where
  "ReconcileComplete s = doWithWriteLock s (\<lambda>s.
     pushTaskIDCompletedNoSync (s\<lparr>Status := StatusCompleted, Action := []\<rparr>))"

definition ReconcileAbort :: "Status option \<Rightarrow> Status option" where
  "ReconcileAbort s = doWithWriteLock s (\<lambda>s.
     pushTaskIDCompletedNoSync (s\<lparr>Status := StatusAborted, Action := []\<rparr>))"

definition DeleteStart :: "Status option \<Rightarrow> Status option" where
  "DeleteStart s = doWithWriteLock s (\<lambda>s.
     pushTaskIDStartedNoSync (s\<lparr>
       Status := StatusTerminating,
       HostsUpdatedCount := 0,
       HostsAddedCount := 0,
       HostsUnchangedCount := 0,
       HostsCompletedCount := 0,
       HostsDeletedCount := 0,
       HostsDeleteCount := 0\<rparr>))"

definition ClearNormalizedCR :: "Status option \<Rightarrow> Status option" where
  "ClearNormalizedCR s = doWithWriteLock s (\<lambda>s. s\<lparr>NormalizedCR := None\<rparr>)"

definition SetNormalizedCompletedFromCurrentNormalized :: "Status option \<Rightarrow> Status option" where
  "SetNormalizedCompletedFromCurrentNormalized s =
     doWithWriteLock s (\<lambda>s. s\<lparr>NormalizedCRCompleted := NormalizedCR s\<rparr>)"

section \<open>CopyFrom\<close>

text \<open>
  The body of \<^verbatim>\<open>CopyFrom\<close> is six guarded blocks run in the order of the source. Each
  block is a function of the source struct \<open>from\<close> and the destination \<open>s\<close>.
\<close>

definition CopyFrom_InheritableFields :: "Status \<Rightarrow> Status \<Rightarrow> Status" where
  "CopyFrom_InheritableFields from s = s\<lparr>
     TaskIDsStarted := TaskIDsStarted from,
     TaskIDsCompleted := TaskIDsCompleted from,
     Actions := Actions from,
     Errors := Errors from,
     HostsWithTablesCreated := HostsWithTablesCreated from\<rparr>"

definition CopyFrom_Actions :: "Status \<Rightarrow> Status \<Rightarrow> Status" where
  "CopyFrom_Actions from s =
     (let s1 = s\<lparr>Action := Action from\<rparr>;
          s2 = mergeActionsNoSync s1 from;
          s3 = s2\<lparr>HostsWithTablesCreated := []\<rparr>;
          s4 = (if length (HostsWithTablesCreated from) > 0
                then s3\<lparr>HostsWithTablesCreated :=
                       HostsWithTablesCreated s3 @ HostsWithTablesCreated from\<rparr>
                else s3);
          s5 = s4\<lparr>UsedTemplates := []\<rparr>
      in if length (UsedTemplates from) > 0
         then s5\<lparr>UsedTemplates := UsedTemplates s5 @ UsedTemplates from\<rparr>
         else s5)"

definition CopyFrom_Errors :: "Status \<Rightarrow> Status \<Rightarrow> Status" where
  "CopyFrom_Errors from s =
     (let s1 = s\<lparr>Error := Error from\<rparr>;
          s2 = s1\<lparr>Errors := MergeStringArrays (Errors s1) (Errors from)\<rparr>
      in s2\<lparr>Errors := sortReverseStrings (Errors s2)\<rparr>)"

definition CopyFrom_MainFields :: "Status \<Rightarrow> Status \<Rightarrow> Status" where
  "CopyFrom_MainFields from s =
     (let s1 = s\<lparr>
            CHOpVersion := CHOpVersion from,
            CHOpCommit := CHOpCommit from,
            CHOpDate := CHOpDate from,
            CHOpIP := CHOpIP from,
            ClustersCount := ClustersCount from,
            ShardsCount := ShardsCount from,
            ReplicasCount := ReplicasCount from,
            HostsCount := HostsCount from,
            Status := Status from,
            TaskID := TaskID from,
            TaskIDsStarted := TaskIDsStarted from,
            TaskIDsCompleted := TaskIDsCompleted from,
            Action := Action from\<rparr>;
          s2 = mergeActionsNoSync s1 from
      in s2\<lparr>
            Error := Error from,
            Errors := Errors from,
            HostsUpdatedCount := HostsUpdatedCount from,
            HostsAddedCount := HostsAddedCount from,
            HostsUnchangedCount := HostsUnchangedCount from,
            HostsCompletedCount := HostsCompletedCount from,
            HostsDeletedCount := HostsDeletedCount from,
            HostsDeleteCount := HostsDeleteCount from,
            Pods := Pods from,
            PodIPs := PodIPs from,
            FQDNs := FQDNs from,
            Endpoint := Endpoint from,
            NormalizedCR := NormalizedCR from\<rparr>)"

definition CopyFrom_Normalized :: "Status \<Rightarrow> Status \<Rightarrow> Status" where
  "CopyFrom_Normalized from s = s\<lparr>NormalizedCR := NormalizedCR from\<rparr>"

definition CopyFrom_WholeStatus :: "Status \<Rightarrow> Status \<Rightarrow> Status" where
  "CopyFrom_WholeStatus from s =
     (let s1 = s\<lparr>
            CHOpVersion := CHOpVersion from,
            CHOpCommit := CHOpCommit from,
            CHOpDate := CHOpDate from,
            CHOpIP := CHOpIP from,
            ClustersCount := ClustersCount from,
            ShardsCount := ShardsCount from,
            ReplicasCount := ReplicasCount from,
            HostsCount := HostsCount from,
            Status := Status from,
            TaskID := TaskID from,
            TaskIDsStarted := TaskIDsStarted from,
            TaskIDsCompleted := TaskIDsCompleted from,
            Action := Action from\<rparr>;
          s2 = mergeActionsNoSync s1 from
      in s2\<lparr>
            Error := Error from,
            Errors := Errors from,
            HostsUpdatedCount := HostsUpdatedCount from,
            HostsAddedCount := HostsAddedCount from,
            HostsUnchangedCount := HostsUnchangedCount from,
            HostsCompletedCount := HostsCompletedCount from,
            HostsDeletedCount := HostsDeletedCount from,
            HostsDeleteCount := HostsDeleteCount from,
            Pods := Pods from,
            PodIPs := PodIPs from,
            FQDNs := FQDNs from,
            Endpoint := Endpoint from,
            NormalizedCR := NormalizedCR from,
            NormalizedCRCompleted := NormalizedCRCompleted from\<rparr>)"

definition CopyFrom :: "Status option \<Rightarrow> CopyStatusOptions \<Rightarrow> Status option \<Rightarrow> Status option" where
  "CopyFrom f opts s = doWithWriteLock s (\<lambda>s. doWithReadLock f (\<lambda>from s.
     let s1 = (if InheritableFields opts then CopyFrom_InheritableFields from s else s);
         s2 = (if CopyStatusOptions.Actions opts then CopyFrom_Actions from s1 else s1);
         s3 = (if CopyStatusOptions.Errors opts then CopyFrom_Errors from s2 else s2);
         s4 = (if MainFields opts then CopyFrom_MainFields from s3 else s3);
         s5 = (if Normalized opts then CopyFrom_Normalized from s4 else s4)
     in if WholeStatus opts then CopyFrom_WholeStatus from s5 else s5) s)"

section \<open>Accessors\<close>

definition GetUsedTemplatesCount :: "Status option \<Rightarrow> go_int" where
  "GetUsedTemplatesCount s = getIntWithReadLock s (\<lambda>s. of_nat (length (UsedTemplates s)))"

definition GetCHOpVersion :: "Status option \<Rightarrow> string" where
  "GetCHOpVersion s = getStringWithReadLock s CHOpVersion"

definition GetCHOpCommit :: "Status option \<Rightarrow> string" where
  "GetCHOpCommit s = getStringWithReadLock s CHOpCommit"

definition GetCHOpDate :: "Status option \<Rightarrow> string" where
  "GetCHOpDate s = getStringWithReadLock s CHOpDate"

definition GetCHOpIP :: "Status option \<Rightarrow> string" where
  "GetCHOpIP s = getStringWithReadLock s CHOpIP"

definition GetClustersCount :: "Status option \<Rightarrow> go_int" where
  "GetClustersCount s = getIntWithReadLock s ClustersCount"

definition GetShardsCount :: "Status option \<Rightarrow> go_int" where
  "GetShardsCount s = getIntWithReadLock s ShardsCount"

definition GetReplicasCount :: "Status option \<Rightarrow> go_int" where
  "GetReplicasCount s = getIntWithReadLock s ReplicasCount"

definition GetHostsCount :: "Status option \<Rightarrow> go_int" where
  "GetHostsCount s = getIntWithReadLock s HostsCount"

definition GetStatus :: "Status option \<Rightarrow> string" where
  "GetStatus s = getStringWithReadLock s Status"

definition GetTaskID :: "Status option \<Rightarrow> string" where
  "GetTaskID s = getStringWithReadLock s TaskID"

definition GetTaskIDsStarted :: "Status option \<Rightarrow> string list" where
  "GetTaskIDsStarted s = getStringArrWithReadLock s TaskIDsStarted"

definition GetTaskIDsCompleted :: "Status option \<Rightarrow> string list" where
  "GetTaskIDsCompleted s = getStringArrWithReadLock s TaskIDsCompleted"

definition GetAction :: "Status option \<Rightarrow> string" where
  "GetAction s = getStringWithReadLock s Action"

definition GetActions :: "Status option \<Rightarrow> string list" where
  "GetActions s = getStringArrWithReadLock s Actions"

definition GetError :: "Status option \<Rightarrow> string" where
  "GetError s = getStringWithReadLock s Error"

definition GetErrors :: "Status option \<Rightarrow> string list" where
  "GetErrors s = getStringArrWithReadLock s Errors"

definition GetHostsUpdatedCount :: "Status option \<Rightarrow> go_int" where
  "GetHostsUpdatedCount s = getIntWithReadLock s HostsUpdatedCount"

definition GetHostsAddedCount :: "Status option \<Rightarrow> go_int" where
  "GetHostsAddedCount s = getIntWithReadLock s HostsAddedCount"

definition GetHostsUnchangedCount :: "Status option \<Rightarrow> go_int" where
  "GetHostsUnchangedCount s = getIntWithReadLock s HostsUnchangedCount"

definition GetHostsFailedCount :: "Status option \<Rightarrow> go_int" where
  "GetHostsFailedCount s = getIntWithReadLock s HostsFailedCount"

definition GetHostsCompletedCount :: "Status option \<Rightarrow> go_int" where
  "GetHostsCompletedCount s = getIntWithReadLock s HostsCompletedCount"

definition GetHostsDeletedCount :: "Status option \<Rightarrow> go_int" where
  "GetHostsDeletedCount s = getIntWithReadLock s HostsDeletedCount"

definition GetHostsDeleteCount :: "Status option \<Rightarrow> go_int" where
  "GetHostsDeleteCount s = getIntWithReadLock s HostsDeleteCount"

definition GetPods :: "Status option \<Rightarrow> string list" where
  "GetPods s = getStringArrWithReadLock s Pods"

definition GetPodIPs :: "Status option \<Rightarrow> string list" where
  "GetPodIPs s = getStringArrWithReadLock s PodIPs"

text \<open>
  The result of \<^verbatim>\<open>GetFQDNs\<close> is a slice like the others: a nil field reads as the empty
  list.
\<close>

definition GetFQDNs :: "Status option \<Rightarrow> string list" where
  "GetFQDNs s =
     getStringArrWithReadLock s (\<lambda>s. case FQDNs s of None \<Rightarrow> [] | Some fqdns \<Rightarrow> fqdns)"

definition GetEndpoint :: "Status option \<Rightarrow> string" where
  "GetEndpoint s = getStringWithReadLock s Endpoint"

definition GetNormalizedCR :: "Status option \<Rightarrow> cr_ref option" where
  "GetNormalizedCR s = getInstallationWithReadLock s NormalizedCR"

definition GetNormalizedCRCompleted :: "Status option \<Rightarrow> cr_ref option" where
  "GetNormalizedCRCompleted s = getInstallationWithReadLock s NormalizedCRCompleted"

definition GetHostsWithTablesCreated :: "Status option \<Rightarrow> string list" where
  "GetHostsWithTablesCreated s = getStringArrWithReadLock s HostsWithTablesCreated"

definition HasNormalizedCRCompleted :: "Status option \<Rightarrow> bool" where
  "HasNormalizedCRCompleted s = (GetNormalizedCRCompleted s \<noteq> None)"

definition HasNormalizedCR :: "Status option \<Rightarrow> bool" where
  "HasNormalizedCR s = (GetNormalizedCR s \<noteq> None)"

section \<open>The status update protocol (package kube, type CR)\<close>

text \<open>
  A Go \<^verbatim>\<open>error\<close> is nil (\<open>None\<close>) or carries a message. A call either returns or
  panics; a panic is not recovered anywhere in the sources, so it ends the outermost
  call.
\<close>

type_synonym error = string

datatype 'a outcome = Panic | Return 'a

text \<open>
  Modelled from the spec: the type \<^verbatim>\<open>ClickHouseKeeperInstallation\<close> is declared in
  pkg/apis/clickhouse-keeper.altinity.com/v1, which is not among the sources. The model
  keeps what the update protocol touches: the identity (namespace and name) by which the
  resource is fetched, the version token, and the status section (a \<^verbatim>\<open>*Status\<close>, written
  \<open>StatusPtr\<close> since \<open>Status\<close> names the phase field of the status struct).
\<close>

record ClickHouseKeeperInstallation =
  Namespace :: string
  Name :: string
  ResourceVersion :: string
  StatusPtr :: "Status option"

text \<open>
  A value of the interface type \<^verbatim>\<open>api.ICustomResource\<close>: the nil interface, or a pointer
  (itself possibly nil) to a \<^verbatim>\<open>ClickHouseKeeperInstallation\<close>, the one implementation that
  this package handles.
\<close>

datatype ICustomResource =
  nil_interface
  | chk_pointer "ClickHouseKeeperInstallation option"

text \<open>
  \<^verbatim>\<open>commonTypes.UpdateStatusOptions\<close> (declared outside the sources): the merge switches,
  embedded, and the tolerance of absence.
\<close>

record UpdateStatusOptions =
  CopyStatusOptions :: CopyStatusOptions
  TolerateAbsence :: bool

text \<open>
  What a call does to the outside world is a trace, newest event first: a look at the
  context, a fetch by namespace and name, a write of an object, a sleep of so many
  seconds. \<open>Attempt n\<close> is bookkeeping of the model, not an effect: it marks the call of
  \<^verbatim>\<open>doUpdateCRStatus\<close> in iteration \<open>n\<close> of the retry loop. Log calls are left out.
\<close>

datatype event =
  ContextChecked
  | Got string string
  | Updated ClickHouseKeeperInstallation
  | Slept nat
  | Attempt nat

text \<open>
  The collaborators are outside the sources and answer as they please: each answer is a
  function of everything that has happened so far. \<open>ctx_done\<close> answers
  \<^verbatim>\<open>util.IsContextDone(ctx)\<close>, \<open>kube_get\<close> the store client's \<^verbatim>\<open>Get\<close> (an error, or
  the object it filled in), \<open>kube_update\<close> the client's \<^verbatim>\<open>Status().Update\<close>.
\<close>

record env =
  ctx_done :: "event list \<Rightarrow> bool"
  kube_get :: "event list \<Rightarrow> string \<Rightarrow> string \<Rightarrow> error + ClickHouseKeeperInstallation"
  kube_update :: "event list \<Rightarrow> ClickHouseKeeperInstallation \<Rightarrow> error option"

text \<open>
  Modelled from the spec: \<^verbatim>\<open>util.IsContextDone\<close> (package pkg/util is not among the
  sources) tells whether "the calling context is already done".
\<close>

definition IsContextDone :: "env \<Rightarrow> event list \<Rightarrow> bool \<times> event list" where
  "IsContextDone e t = (ctx_done e t, ContextChecked # t)"

text \<open>
  Modelled from the spec: \<^verbatim>\<open>util.NamespaceName\<close> (package pkg/util is not among the
  sources); the resource is fetched "by namespace+name".
\<close>

definition NamespaceName :: "ClickHouseKeeperInstallation \<Rightarrow> string \<times> string" where
  "NamespaceName chk = (Namespace chk, Name chk)"

text \<open>
  Modelled from the spec: \<^verbatim>\<open>EnsureStatus\<close> is declared with
  \<^verbatim>\<open>ClickHouseKeeperInstallation\<close>, outside the sources. The local status is merged "into
  the fetched object's status": that status, a fresh zero one where the object has none.
\<close>

definition EnsureStatus :: "ClickHouseKeeperInstallation \<Rightarrow> Status" where
  "EnsureStatus chk = (case StatusPtr chk of None \<Rightarrow> zeroStatus | Some st \<Rightarrow> st)"

text \<open>
  \<^verbatim>\<open>CR.Get\<close>: the object and a nil error, or the nil interface and the client's error.
\<close>

definition CR_Get ::
  "env \<Rightarrow> string \<Rightarrow> string \<Rightarrow> event list
     \<Rightarrow> (ICustomResource \<times> error option) \<times> event list" where
  "CR_Get e namespace name t =
     (case kube_get e t namespace name of
        Inr cm \<Rightarrow> ((chk_pointer (Some cm), None), Got namespace name # t)
      | Inl err \<Rightarrow> ((nil_interface, Some err), Got namespace name # t))"

definition Status_Update ::
  "env \<Rightarrow> ClickHouseKeeperInstallation \<Rightarrow> event list \<Rightarrow> error option \<times> event list" where
  "Status_Update e cur t = (kube_update e t cur, Updated cur # t)"

text \<open>
  \<^verbatim>\<open>doUpdateCRStatus\<close>. The caller's resource \<open>chk\<close> is the struct behind the interface
  value \<^verbatim>\<open>cr\<close> (callers pass a resource they hold). The result is the outcome, the
  caller's resource (its version token may have been set) and the trace.
  The single-valued type assertion of \<^verbatim>\<open>_cur\<close> to the concrete pointer type panics on
  a nil interface; it comes before the test of \<^verbatim>\<open>err\<close>. After the write, the error of the
  second fetch is dropped and its result is asserted and dereferenced.
\<close>

definition doUpdateCRStatus ::
  "env \<Rightarrow> ClickHouseKeeperInstallation \<Rightarrow> UpdateStatusOptions \<Rightarrow> event list
     \<Rightarrow> error option outcome \<times> ClickHouseKeeperInstallation \<times> event list" where
  "doUpdateCRStatus e chk opts t0 =
     (let (done, t1) = IsContextDone e t0 in
      if done then (Return None, chk, t1)
      else
        let (namespace, name) = NamespaceName chk;
            ((cur_iface, err), t2) = CR_Get e namespace name t1
        in case cur_iface of
             nil_interface \<Rightarrow> (Panic, chk, t2)
           | chk_pointer cur \<Rightarrow>
               (case err of
                  Some er \<Rightarrow>
                    if TolerateAbsence opts then (Return None, chk, t2)
                    else (Return (Some er), chk, t2)
                | None \<Rightarrow>
                    (case cur of
                       None \<Rightarrow>
                         if TolerateAbsence opts then (Return None, chk, t2)
                         else (Return (Some (''ERROR GetCR ('' @ namespace @ ''/'' @ name
                                 @ ''): NULL returned'')), chk, t2)
                     | Some curv \<Rightarrow>
                         let cur1 = curv\<lparr>StatusPtr :=
                               CopyFrom (StatusPtr chk) (CopyStatusOptions opts)
                                 (Some (EnsureStatus curv))\<rparr>;
                             (uerr, t3) = Status_Update e cur1 t2
                         in case uerr of
                              Some er \<Rightarrow> (Return (Some er), chk, t3)
                            | None \<Rightarrow>
                                let ((cur_iface2, err2), t4) = CR_Get e namespace name t3
                                in case cur_iface2 of
                                     nil_interface \<Rightarrow> (Panic, chk, t4)
                                   | chk_pointer None \<Rightarrow> (Panic, chk, t4)
                                   | chk_pointer (Some cur2) \<Rightarrow>
                                       if ResourceVersion chk \<noteq> ResourceVersion cur2
                                       then (Return None,
                                             chk\<lparr>ResourceVersion := ResourceVersion cur2\<rparr>, t4)
                                       else (Return None, chk, t4))))"

text \<open>
  The loop of \<^verbatim>\<open>StatusUpdate\<close>, with its variables \<open>retry\<close>, \<open>attempt\<close> and the named
  result \<open>err\<close> as arguments. One call is one test of the loop condition followed by one
  iteration. The loop counter stays below 63, far from the bounds of a machine integer.
\<close>

function StatusUpdate_loop ::
  "env \<Rightarrow> UpdateStatusOptions \<Rightarrow> bool \<Rightarrow> nat \<Rightarrow> error option
     \<Rightarrow> ClickHouseKeeperInstallation \<Rightarrow> event list
     \<Rightarrow> error option outcome \<times> ClickHouseKeeperInstallation \<times> event list" where
  "StatusUpdate_loop e opts retry attempt err cr t =
     (if \<not> retry then (Return err, cr, t)
      else
        let retry1 = (if attempt > 60 then False else retry)
        in case doUpdateCRStatus e cr opts (Attempt attempt # t) of
             (Panic, cr1, t1) \<Rightarrow> (Panic, cr1, t1)
           | (Return None, cr1, t1) \<Rightarrow> (Return None, cr1, t1)
           | (Return (Some er), cr1, t1) \<Rightarrow>
               StatusUpdate_loop e opts retry1 (attempt + 1) (Some er) cr1
                 (if retry1 then Slept 1 # t1 else t1))"
  by pat_completeness auto
termination
  by (relation "measure (\<lambda>(e, opts, retry, attempt, err, cr, t).
        if retry then Suc (61 - attempt) else 0)") auto

declare StatusUpdate_loop.simps [simp del]

definition StatusUpdate ::
  "env \<Rightarrow> ClickHouseKeeperInstallation \<Rightarrow> UpdateStatusOptions \<Rightarrow> event list
     \<Rightarrow> error option outcome \<times> ClickHouseKeeperInstallation \<times> event list" where
  "StatusUpdate e cr opts t0 =
     (let (done, t1) = IsContextDone e t0 in
      if done then (Return None, cr, t1)
      else StatusUpdate_loop e opts True 1 None cr t1)"

text \<open>
  The part of a trace that the retry loop itself decides: the attempts and the sleeps.
  \<open>retry_schedule n\<close> is the trace of \<open>n\<close> attempts, numbered from 1, with one sleep of
  one second between two consecutive attempts and none after the last (newest first,
  like every trace).
\<close>

fun is_schedule_event :: "event \<Rightarrow> bool" where
  "is_schedule_event (Slept d) = True"
| "is_schedule_event (Attempt n) = True"
| "is_schedule_event ev = False"

definition schedule :: "event list \<Rightarrow> event list" where
  "schedule t = filter is_schedule_event t"

primrec retry_schedule :: "nat \<Rightarrow> event list" where
  "retry_schedule 0 = []"
| "retry_schedule (Suc k) =
     Attempt (Suc k) # (if k = 0 then [] else Slept 1 # retry_schedule k)"

subsection \<open>Example resources and collaborators\<close>

text \<open>
  A resource, and five behaviours of the collaborators, for the concrete runs below:
  a context that is done from the start; a context that is cancelled during the first
  sleep, with a store that refuses every write; a live context and a store that has no
  such object; a live context and a store that fetches the object and refuses every write
  with a conflict; the same, refusing only the first \<open>k\<close> writes.
\<close>

definition example_chk :: ClickHouseKeeperInstallation where
  "example_chk = \<lparr>Namespace = ''ns'', Name = ''keeper'', ResourceVersion = ''41'',
     StatusPtr = Some (zeroStatus\<lparr>Action := ''reconcile started''\<rparr>)\<rparr>"

definition example_opts :: "bool \<Rightarrow> UpdateStatusOptions" where
  "example_opts tolerate = \<lparr>CopyStatusOptions =
       \<lparr>InheritableFields = False, CopyStatusOptions.Actions = True,
        CopyStatusOptions.Errors = True, MainFields = False, Normalized = False,
        WholeStatus = False\<rparr>,
     TolerateAbsence = tolerate\<rparr>"

definition cancelled_env :: env where
  "cancelled_env = \<lparr>ctx_done = (\<lambda>t. True),
     kube_get = (\<lambda>t namespace name. Inl ''unreachable''),
     kube_update = (\<lambda>t cur. Some ''unreachable'')\<rparr>"

definition cancelled_asleep_env :: env where
  "cancelled_asleep_env = \<lparr>ctx_done = (\<lambda>t. Slept 1 \<in> set t),
     kube_get = (\<lambda>t namespace name.
       Inr \<lparr>Namespace = namespace, Name = name, ResourceVersion = ''42'',
            StatusPtr = None\<rparr>),
     kube_update = (\<lambda>t cur. Some ''conflict'')\<rparr>"

definition not_found_env :: env where
  "not_found_env = \<lparr>ctx_done = (\<lambda>t. False),
     kube_get = (\<lambda>t namespace name. Inl ''not found''),
     kube_update = (\<lambda>t cur. None)\<rparr>"

definition refusing_env :: env where
  "refusing_env = \<lparr>ctx_done = (\<lambda>t. False),
     kube_get = (\<lambda>t namespace name.
       Inr \<lparr>Namespace = namespace, Name = name, ResourceVersion = ''42'',
            StatusPtr = None\<rparr>),
     kube_update = (\<lambda>t cur. Some ''conflict'')\<rparr>"

definition conflict_env :: "nat \<Rightarrow> env" where
  "conflict_env k = \<lparr>ctx_done = (\<lambda>t. False),
     kube_get = (\<lambda>t namespace name.
       Inr \<lparr>Namespace = namespace, Name = name, ResourceVersion = ''42'',
            StatusPtr = None\<rparr>),
     kube_update = (\<lambda>t cur.
       if length (filter (\<lambda>ev. case ev of Updated c \<Rightarrow> True | _ \<Rightarrow> False) t) < k
       then Some ''conflict'' else None)\<rparr>"

section \<open>Bounded histories\<close>

lemma take_Cons_take: "take n (x # take n xs) = take n (x # xs)"
  by (cases n) simp_all

lemma PushAction_Some:
  "PushAction a (Some s) = Some (s\<lparr>Actions := take maxActions (a # Actions s)\<rparr>)"
  by (simp add: PushAction_def doWithWriteLock_def trimActionsNoSync_def)

lemma PushAction_foldl:
  "foldl (\<lambda>st a. PushAction a st) (Some s) xs =
     Some (s\<lparr>Actions := foldl (\<lambda>h a. take maxActions (a # h)) (Actions s) xs\<rparr>)"
  by (induction xs arbitrary: s) (simp_all add: PushAction_Some)

lemma push_history:
  "xs \<noteq> [] \<or> length h \<le> n \<Longrightarrow>
     foldl (\<lambda>h a. take n (a # h)) h xs = take n (rev xs @ h)"
proof (induction xs rule: rev_induct)
  case Nil
  then show ?case by simp
next
  case (snoc x xs)
  show ?case
  proof (cases "xs = []")
    case True
    then show ?thesis by simp
  next
    case False
    with snoc.IH have IH: "foldl (\<lambda>h a. take n (a # h)) h xs = take n (rev xs @ h)"
      by blast
    have "foldl (\<lambda>h a. take n (a # h)) h (xs @ [x])
            = take n (x # foldl (\<lambda>h a. take n (a # h)) h xs)"
      by simp
    also have "\<dots> = take n (x # rev xs @ h)"
      unfolding IH by (rule take_Cons_take)
    finally show ?thesis by simp
  qed
qed

lemma pushTaskIDCompletedNoSync_eq:
  "pushTaskIDCompletedNoSync s =
     s\<lparr>TaskIDsCompleted := take 10 (TaskID s # TaskIDsCompleted s)\<rparr>"
  by (simp add: pushTaskIDCompletedNoSync_def maxTaskIDs_def Let_def)

lemma pushTaskIDStartedNoSync_eq:
  "pushTaskIDStartedNoSync s =
     s\<lparr>TaskIDsStarted := take 10 (TaskID s # TaskIDsStarted s)\<rparr>"
  by (simp add: pushTaskIDStartedNoSync_def maxTaskIDs_def Let_def)

text \<open>
  Claim C3. Let \<open>pushed\<close> be the arguments of a sequence of \<^verbatim>\<open>PushAction\<close> calls on a
  non-nil status, in call order. Provided at least one call is made, or the history held
  at most 10 entries to begin with, the history read afterwards is the first 10 entries
  of the pushed strings, newest first, followed by the old history: every push prepends
  its argument, the oldest entries beyond the cap are dropped, and the length never
  exceeds 10.
\<close>

theorem PushAction_history:
  assumes "pushed \<noteq> [] \<or> length (Actions s) \<le> 10"
  shows "GetActions (foldl (\<lambda>st a. PushAction a st) (Some s) pushed)
           = take 10 (rev pushed @ Actions s)
         \<and> length (GetActions (foldl (\<lambda>st a. PushAction a st) (Some s) pushed)) \<le> 10"
proof -
  have "foldl (\<lambda>h a. take maxActions (a # h)) (Actions s) pushed
          = take maxActions (rev pushed @ Actions s)"
    using assms by (intro push_history) (simp add: maxActions_def)
  then show ?thesis
    by (simp add: PushAction_foldl GetActions_def getStringArrWithReadLock_def maxActions_def)
qed

theorem PushAction_history_witness:
  "[''a4'', ''a5'', ''a6'', ''a7'', ''a8'', ''a9'', ''b0'', ''b1'', ''b2''] \<noteq> []
   \<and> GetActions (foldl (\<lambda>st a. PushAction a st)
        (Some (zeroStatus\<lparr>Actions := [''a3'', ''a2'', ''a1'']\<rparr>))
        [''a4'', ''a5'', ''a6'', ''a7'', ''a8'', ''a9'', ''b0'', ''b1'', ''b2''])
     = [''b2'', ''b1'', ''b0'', ''a9'', ''a8'', ''a7'', ''a6'', ''a5'', ''a4'', ''a3'']"
  using PushAction_history
    [of "[''a4'', ''a5'', ''a6'', ''a7'', ''a8'', ''a9'', ''b0'', ''b1'', ''b2'']"
      "zeroStatus\<lparr>Actions := [''a3'', ''a2'', ''a1'']\<rparr>"]
  by simp

section \<open>Reconcile cycle\<close>

text \<open>
  Claim C10. On a non-nil status, \<^verbatim>\<open>ReconcileComplete\<close> and \<^verbatim>\<open>ReconcileAbort\<close> set the
  phase to Completed, respectively Aborted, set the current action to the empty string
  and prepend the current task id to the completed-task-id history (kept to its cap of
  10); the result differs from the status before in these three fields only.
\<close>

theorem Reconcile_terminal_frame:
  "ReconcileComplete (Some s) =
     Some (s\<lparr>Status := ''Completed'', Action := '''',
             TaskIDsCompleted := take 10 (TaskID s # TaskIDsCompleted s)\<rparr>)
   \<and> ReconcileAbort (Some s) =
     Some (s\<lparr>Status := ''Aborted'', Action := '''',
             TaskIDsCompleted := take 10 (TaskID s # TaskIDsCompleted s)\<rparr>)"
  by (simp add: ReconcileComplete_def ReconcileAbort_def doWithWriteLock_def
      pushTaskIDCompletedNoSync_eq StatusCompleted_def StatusAborted_def)

text \<open>
  Claim C6, as stated, fails: \<^verbatim>\<open>ReconcileStart\<close> does not touch the failed-hosts counter
  and sets the to-delete counter to its argument. After \<^verbatim>\<open>ReconcileStart(2)\<close> on a status
  with three failed hosts, the failed counter reads 3 and the to-delete counter reads 2.
\<close>

theorem ReconcileStart_counters_counterexample:
  "GetHostsFailedCount (ReconcileStart 2 (Some (zeroStatus\<lparr>HostsFailedCount := 3\<rparr>))) = 3
   \<and> GetHostsFailedCount (ReconcileStart 2 (Some (zeroStatus\<lparr>HostsFailedCount := 3\<rparr>))) \<noteq> 0
   \<and> GetHostsDeleteCount (ReconcileStart 2 (Some (zeroStatus\<lparr>HostsFailedCount := 3\<rparr>))) = 2
   \<and> GetHostsDeleteCount (ReconcileStart 2 (Some (zeroStatus\<lparr>HostsFailedCount := 3\<rparr>))) \<noteq> 0"
  by (simp add: ReconcileStart_def doWithWriteLock_def pushTaskIDStartedNoSync_eq
      GetHostsFailedCount_def GetHostsDeleteCount_def getIntWithReadLock_def)

lemma ReconcileStart_Some:
  "ReconcileStart n (Some s) =
     Some (s\<lparr>Status := ''InProgress'', HostsUpdatedCount := 0, HostsAddedCount := 0,
             HostsUnchangedCount := 0, HostsCompletedCount := 0, HostsDeletedCount := 0,
             HostsDeleteCount := n,
             TaskIDsStarted := take 10 (TaskID s # TaskIDsStarted s)\<rparr>)"
  by (simp add: ReconcileStart_def doWithWriteLock_def pushTaskIDStartedNoSync_eq
      StatusInProgress_def)

lemma ReconcileComplete_Some:
  "ReconcileComplete (Some s) =
     Some (s\<lparr>Status := ''Completed'', Action := '''',
             TaskIDsCompleted := take 10 (TaskID s # TaskIDsCompleted s)\<rparr>)"
  by (simp add: ReconcileComplete_def doWithWriteLock_def
      pushTaskIDCompletedNoSync_eq StatusCompleted_def)

text \<open>
  Claim C6, amended. On a non-nil status, \<^verbatim>\<open>ReconcileStart(n)\<close> resets the updated, added,
  unchanged, completed and deleted host counters to zero, sets the to-delete counter to
  \<open>n\<close>, leaves the failed counter as it was, and pushes the current task id onto the
  started-task-id history (prepended, kept to 10 entries) without touching the completed
  history. A following \<^verbatim>\<open>ReconcileComplete\<close> pushes the current task id onto the
  completed-task-id history (prepended, kept to 10 entries) and leaves the started
  history as \<^verbatim>\<open>ReconcileStart\<close> made it: one new entry at the head of each history, in
  that order.
\<close>

theorem ReconcileStart_then_Complete:
  "GetHostsUpdatedCount (ReconcileStart n (Some s)) = 0
   \<and> GetHostsAddedCount (ReconcileStart n (Some s)) = 0
   \<and> GetHostsUnchangedCount (ReconcileStart n (Some s)) = 0
   \<and> GetHostsCompletedCount (ReconcileStart n (Some s)) = 0
   \<and> GetHostsDeletedCount (ReconcileStart n (Some s)) = 0
   \<and> GetHostsDeleteCount (ReconcileStart n (Some s)) = n
   \<and> GetHostsFailedCount (ReconcileStart n (Some s)) = HostsFailedCount s
   \<and> GetTaskIDsStarted (ReconcileStart n (Some s)) = take 10 (TaskID s # TaskIDsStarted s)
   \<and> GetTaskIDsCompleted (ReconcileStart n (Some s)) = TaskIDsCompleted s
   \<and> GetTaskIDsStarted (ReconcileComplete (ReconcileStart n (Some s)))
       = take 10 (TaskID s # TaskIDsStarted s)
   \<and> GetTaskIDsCompleted (ReconcileComplete (ReconcileStart n (Some s)))
       = take 10 (TaskID s # TaskIDsCompleted s)"
  by (simp add: ReconcileStart_Some ReconcileComplete_Some
      GetHostsUpdatedCount_def GetHostsAddedCount_def GetHostsUnchangedCount_def
      GetHostsCompletedCount_def GetHostsDeletedCount_def GetHostsDeleteCount_def
      GetHostsFailedCount_def GetTaskIDsStarted_def GetTaskIDsCompleted_def
      getIntWithReadLock_def getStringArrWithReadLock_def)

section \<open>Table-created set\<close>

text \<open>
  Claim C5. On a non-nil status, \<^verbatim>\<open>SyncHostTablesCreated\<close> changes nothing when the FQDN
  list is nil; when it is set, the table-created set afterwards is exactly the
  intersection of its previous contents with the FQDN list.
\<close>

theorem SyncHostTablesCreated_intersection:
  "(FQDNs s = None \<longrightarrow> SyncHostTablesCreated (Some s) = Some s)
   \<and> (\<forall>fqdns. FQDNs s = Some fqdns \<longrightarrow>
        set (GetHostsWithTablesCreated (SyncHostTablesCreated (Some s)))
          = set (HostsWithTablesCreated s) \<inter> set fqdns)"
  by (auto simp add: SyncHostTablesCreated_def doWithWriteLock_def IntersectStringArrays_def
      GetHostsWithTablesCreated_def getStringArrWithReadLock_def)

theorem SyncHostTablesCreated_intersection_witness:
  "FQDNs (zeroStatus\<lparr>HostsWithTablesCreated := [''h1'', ''h2'']\<rparr>) = None
   \<and> GetHostsWithTablesCreated
        (SyncHostTablesCreated (Some (zeroStatus\<lparr>HostsWithTablesCreated := [''h1'', ''h2'']\<rparr>)))
       = [''h1'', ''h2'']
   \<and> FQDNs (zeroStatus\<lparr>HostsWithTablesCreated := [''h1'', ''h2''],
                        FQDNs := Some [''h2'', ''h3'']\<rparr>) = Some [''h2'', ''h3'']
   \<and> set (GetHostsWithTablesCreated
        (SyncHostTablesCreated (Some (zeroStatus\<lparr>HostsWithTablesCreated := [''h1'', ''h2''],
                        FQDNs := Some [''h2'', ''h3'']\<rparr>)))) = {''h2''}"
  using SyncHostTablesCreated_intersection
      [of "zeroStatus\<lparr>HostsWithTablesCreated := [''h1'', ''h2'']\<rparr>"]
    SyncHostTablesCreated_intersection
      [of "zeroStatus\<lparr>HostsWithTablesCreated := [''h1'', ''h2''],
                        FQDNs := Some [''h2'', ''h3'']\<rparr>"]
  by (simp add: zeroStatus_def GetHostsWithTablesCreated_def getStringArrWithReadLock_def)

section \<open>Merging two statuses\<close>

lemma sortReverse_merge:
  "sortReverseStrings (MergeStringArrays a b) = rev (sorted_list_of_set (set a \<union> set b))"
  by (simp add: sortReverseStrings_def MergeStringArrays_def sorted_list_of_set_sort_remdups
      del: set_append flip: set_append)

lemma mergeActionsNoSync_eq:
  "mergeActionsNoSync s from =
     s\<lparr>Actions := take 10 (rev (sorted_list_of_set (set (Actions s) \<union> set (Actions from))))\<rparr>"
  by (simp add: mergeActionsNoSync_def trimActionsNoSync_def Let_def sortReverse_merge
      maxActions_def)

lemma take_filter_all:
  "\<forall>x \<in> set (take n xs). P x \<Longrightarrow> take n (filter P xs) = take n xs"
proof (induction xs arbitrary: n)
  case Nil
  then show ?case by simp
next
  case (Cons x xs)
  then show ?case by (cases n) simp_all
qed

lemma sorted_list_of_subset:
  assumes "finite S" and "T \<subseteq> S"
  shows "sorted_list_of_set T = filter (\<lambda>x. x \<in> T) (sorted_list_of_set S)"
proof (rule sorted_distinct_set_unique)
  have "finite T" using assms by (rule rev_finite_subset)
  then show "sorted (sorted_list_of_set T)" "distinct (sorted_list_of_set T)" by simp_all
  show "sorted (filter (\<lambda>x. x \<in> T) (sorted_list_of_set S))"
    by (rule sorted_wrt_filter) simp
  show "distinct (filter (\<lambda>x. x \<in> T) (sorted_list_of_set S))" by simp
  show "set (sorted_list_of_set T) = set (filter (\<lambda>x. x \<in> T) (sorted_list_of_set S))"
    using assms \<open>finite T\<close> by auto
qed

lemma top_stable:
  assumes "finite S" and "F \<subseteq> S"
  shows "take n (rev (sorted_list_of_set (set (take n (rev (sorted_list_of_set S))) \<union> F)))
           = take n (rev (sorted_list_of_set S))"
proof -
  let ?D = "rev (sorted_list_of_set S)"
  let ?T = "set (take n ?D) \<union> F"
  have "set (take n ?D) \<subseteq> set ?D" by (rule set_take_subset)
  then have sub: "?T \<subseteq> S" using assms by auto
  have "rev (sorted_list_of_set ?T) = filter (\<lambda>x. x \<in> ?T) ?D"
    by (simp only: sorted_list_of_subset [OF assms(1) sub] rev_filter)
  moreover have "take n (filter (\<lambda>x. x \<in> ?T) ?D) = take n ?D"
    by (rule take_filter_all) simp
  ultimately show ?thesis by simp
qed

lemma CopyFrom_Actions_eq:
  "CopyFrom_Actions from s =
     s\<lparr>Action := Action from,
       Actions := take 10 (rev (sorted_list_of_set (set (Actions s) \<union> set (Actions from)))),
       HostsWithTablesCreated := HostsWithTablesCreated from,
       UsedTemplates := UsedTemplates from\<rparr>"
  by (simp add: CopyFrom_Actions_def Let_def mergeActionsNoSync_eq)

lemma CopyFrom_Errors_frame:
  "Action (CopyFrom_Errors from s) = Action s"
  "Actions (CopyFrom_Errors from s) = Actions s"
  "HostsWithTablesCreated (CopyFrom_Errors from s) = HostsWithTablesCreated s"
  "UsedTemplates (CopyFrom_Errors from s) = UsedTemplates s"
  by (simp_all add: CopyFrom_Errors_def Let_def)

lemma CopyFrom_Normalized_frame:
  "Action (CopyFrom_Normalized from s) = Action s"
  "Actions (CopyFrom_Normalized from s) = Actions s"
  "HostsWithTablesCreated (CopyFrom_Normalized from s) = HostsWithTablesCreated s"
  "UsedTemplates (CopyFrom_Normalized from s) = UsedTemplates s"
  by (simp_all add: CopyFrom_Normalized_def)

lemma CopyFrom_MainFields_fields:
  "Action (CopyFrom_MainFields from s) = Action from"
  "Actions (CopyFrom_MainFields from s)
     = take 10 (rev (sorted_list_of_set (set (Actions s) \<union> set (Actions from))))"
  "HostsWithTablesCreated (CopyFrom_MainFields from s) = HostsWithTablesCreated s"
  "UsedTemplates (CopyFrom_MainFields from s) = UsedTemplates s"
  by (simp_all add: CopyFrom_MainFields_def Let_def mergeActionsNoSync_eq)

lemma CopyFrom_WholeStatus_fields:
  "Action (CopyFrom_WholeStatus from s) = Action from"
  "Actions (CopyFrom_WholeStatus from s)
     = take 10 (rev (sorted_list_of_set (set (Actions s) \<union> set (Actions from))))"
  "HostsWithTablesCreated (CopyFrom_WholeStatus from s) = HostsWithTablesCreated s"
  "UsedTemplates (CopyFrom_WholeStatus from s) = UsedTemplates s"
  by (simp_all add: CopyFrom_WholeStatus_def Let_def mergeActionsNoSync_eq)

lemma top_again:
  "A = take 10 (rev (sorted_list_of_set (set a \<union> set f))) \<Longrightarrow>
   take 10 (rev (sorted_list_of_set (set A \<union> set f))) = A"
  using top_stable [of "set a \<union> set f" "set f" 10] by simp

text \<open>
  Claim C4. \<^verbatim>\<open>CopyFrom\<close> between two non-nil statuses with only the Errors switch set:
  putting back the destination's old \<^verbatim>\<open>Error\<close> and \<^verbatim>\<open>Errors\<close> gives back the old
  destination, so no other field has changed; the last error is the source's; the error
  history is the union of both histories, each string once, in descending
  (reverse-lexicographic) order; and nothing is cut off: its length is the number of
  distinct strings of the two histories.
\<close>

theorem CopyFrom_Errors_only:
  "\<exists>s'. CopyFrom (Some from)
           \<lparr>InheritableFields = False, CopyStatusOptions.Actions = False,
            CopyStatusOptions.Errors = True, MainFields = False, Normalized = False,
            WholeStatus = False\<rparr> (Some s) = Some s'
        \<and> s'\<lparr>Error := Error s, Errors := Errors s\<rparr> = s
        \<and> Error s' = Error from
        \<and> Errors s' = rev (sorted_list_of_set (set (Errors s) \<union> set (Errors from)))
        \<and> length (Errors s') = card (set (Errors s) \<union> set (Errors from))"
  by (simp add: CopyFrom_def doWithWriteLock_def doWithReadLock_def CopyFrom_Errors_def
      Let_def sortReverse_merge)

theorem CopyFrom_Errors_only_witness:
  "GetErrors (CopyFrom
     (Some (zeroStatus\<lparr>Error := ''e12'',
        Errors := [''e12'', ''e11'', ''e10'', ''e09'', ''e08'', ''e07'', ''e06'']\<rparr>))
     \<lparr>InheritableFields = False, CopyStatusOptions.Actions = False,
      CopyStatusOptions.Errors = True, MainFields = False, Normalized = False,
      WholeStatus = False\<rparr>
     (Some (zeroStatus\<lparr>Action := ''a'',
        Errors := [''e06'', ''e05'', ''e04'', ''e03'', ''e02'', ''e01'']\<rparr>)))
   = [''e12'', ''e11'', ''e10'', ''e09'', ''e08'', ''e07'', ''e06'', ''e05'', ''e04'', ''e03'',
      ''e02'', ''e01'']"
proof -
  let ?from = "zeroStatus\<lparr>Error := ''e12'',
        Errors := [''e12'', ''e11'', ''e10'', ''e09'', ''e08'', ''e07'', ''e06'']\<rparr>"
  let ?s = "zeroStatus\<lparr>Action := ''a'',
        Errors := [''e06'', ''e05'', ''e04'', ''e03'', ''e02'', ''e01'']\<rparr>"
  have srt: "rev (sorted_list_of_set
      (set [''e06'', ''e05'', ''e04'', ''e03'', ''e02'', ''e01'']
       \<union> set [''e12'', ''e11'', ''e10'', ''e09'', ''e08'', ''e07'', ''e06'']))
    = [''e12'', ''e11'', ''e10'', ''e09'', ''e08'', ''e07'', ''e06'', ''e05'', ''e04'', ''e03'',
       ''e02'', ''e01'']"
    by code_simp
  from CopyFrom_Errors_only [of ?from ?s] obtain s'
    where r: "CopyFrom (Some ?from)
           \<lparr>InheritableFields = False, CopyStatusOptions.Actions = False,
            CopyStatusOptions.Errors = True, MainFields = False, Normalized = False,
            WholeStatus = False\<rparr> (Some ?s) = Some s'"
      and e: "Errors s' = rev (sorted_list_of_set (set (Errors ?s) \<union> set (Errors ?from)))"
    by blast
  have "Errors s' = [''e12'', ''e11'', ''e10'', ''e09'', ''e08'', ''e07'', ''e06'', ''e05'',
      ''e04'', ''e03'', ''e02'', ''e01'']"
    using e srt by (simp add: zeroStatus_def)
  then show ?thesis
    using r by (simp add: GetErrors_def getStringArrWithReadLock_def)
qed

text \<open>
  Claim C7, as stated, fails: the merged history is not in order of recency. Push "b",
  then "a": the history is newest first, "a" before "b". Merging an empty source under
  the Actions switch sorts the strings in descending order and puts the older "b" first.
\<close>

theorem CopyFrom_Actions_recency_counterexample:
  "GetActions (PushAction ''a'' (PushAction ''b'' (Some zeroStatus))) = [''a'', ''b'']
   \<and> GetActions (CopyFrom (Some zeroStatus)
        \<lparr>InheritableFields = False, CopyStatusOptions.Actions = True,
         CopyStatusOptions.Errors = False, MainFields = False, Normalized = False,
         WholeStatus = False\<rparr>
        (PushAction ''a'' (PushAction ''b'' (Some zeroStatus)))) = [''b'', ''a'']"
  by (simp add: PushAction_def doWithWriteLock_def trimActionsNoSync_def maxActions_def
      CopyFrom_def doWithReadLock_def CopyFrom_Actions_def Let_def mergeActionsNoSync_def
      MergeStringArrays_def sortReverseStrings_def zeroStatus_def
      GetActions_def getStringArrWithReadLock_def)

text \<open>
  Claim C7, amended. \<^verbatim>\<open>CopyFrom\<close> between two non-nil statuses with the Actions switch
  set, and the InheritableFields switch (which runs first and replaces the destination's
  history) not set, whatever the other switches: the action field is the source's; the
  action history is the union of both histories, each string once, in descending
  byte-wise (reverse-lexicographic) string order, cut to its first 10 entries; the
  table-created set and the template list are the source's, empty when the source's are
  nil or empty.
\<close>

theorem CopyFrom_Actions_switch:
  assumes "CopyStatusOptions.Actions opts" and "\<not> InheritableFields opts"
  shows "\<exists>s'. CopyFrom (Some from) opts (Some s) = Some s'
     \<and> Action s' = Action from
     \<and> Actions s' = take 10 (rev (sorted_list_of_set (set (Actions s) \<union> set (Actions from))))
     \<and> length (Actions s') \<le> 10
     \<and> HostsWithTablesCreated s' = HostsWithTablesCreated from
     \<and> UsedTemplates s' = UsedTemplates from"
proof -
  define s2 where "s2 = CopyFrom_Actions from s"
  define s3 where "s3 = (if CopyStatusOptions.Errors opts then CopyFrom_Errors from s2 else s2)"
  define s4 where "s4 = (if MainFields opts then CopyFrom_MainFields from s3 else s3)"
  define s5 where "s5 = (if Normalized opts then CopyFrom_Normalized from s4 else s4)"
  define s6 where "s6 = (if WholeStatus opts then CopyFrom_WholeStatus from s5 else s5)"
  let ?top = "take 10 (rev (sorted_list_of_set (set (Actions s) \<union> set (Actions from))))"
  let ?ok = "\<lambda>x. Action x = Action from \<and> Actions x = ?top
      \<and> HostsWithTablesCreated x = HostsWithTablesCreated from
      \<and> UsedTemplates x = UsedTemplates from"
  have r: "CopyFrom (Some from) opts (Some s) = Some s6"
    using assms
    by (simp add: CopyFrom_def doWithWriteLock_def doWithReadLock_def Let_def
        s2_def s3_def s4_def s5_def s6_def)
  have 2: "?ok s2" by (simp add: s2_def CopyFrom_Actions_eq)
  then have 3: "?ok s3" by (simp add: s3_def CopyFrom_Errors_frame)
  then have 4: "?ok s4" by (simp add: s4_def CopyFrom_MainFields_fields top_again)
  then have 5: "?ok s5" by (simp add: s5_def CopyFrom_Normalized_frame)
  then have 6: "?ok s6" by (simp add: s6_def CopyFrom_WholeStatus_fields top_again)
  then show ?thesis using r by simp
qed

theorem CopyFrom_Actions_switch_witness:
  "CopyStatusOptions.Actions
     \<lparr>InheritableFields = False, CopyStatusOptions.Actions = True,
      CopyStatusOptions.Errors = False, MainFields = True, Normalized = False,
      WholeStatus = False\<rparr>
   \<and> \<not> InheritableFields
     \<lparr>InheritableFields = False, CopyStatusOptions.Actions = True,
      CopyStatusOptions.Errors = False, MainFields = True, Normalized = False,
      WholeStatus = False\<rparr>
   \<and> GetActions (CopyFrom
        (Some (zeroStatus\<lparr>Action := ''reconcile'',
                 Actions := [''2024-01-02 b'', ''2024-01-01 a''],
                 UsedTemplates := [Some 7]\<rparr>))
        \<lparr>InheritableFields = False, CopyStatusOptions.Actions = True,
         CopyStatusOptions.Errors = False, MainFields = True, Normalized = False,
         WholeStatus = False\<rparr>
        (Some (zeroStatus\<lparr>Actions := [''2024-01-03 c'', ''2024-01-01 a''],
                 HostsWithTablesCreated := [''h1'']\<rparr>)))
     = [''2024-01-03 c'', ''2024-01-02 b'', ''2024-01-01 a'']
   \<and> GetHostsWithTablesCreated (CopyFrom
        (Some (zeroStatus\<lparr>Action := ''reconcile'',
                 Actions := [''2024-01-02 b'', ''2024-01-01 a''],
                 UsedTemplates := [Some 7]\<rparr>))
        \<lparr>InheritableFields = False, CopyStatusOptions.Actions = True,
         CopyStatusOptions.Errors = False, MainFields = True, Normalized = False,
         WholeStatus = False\<rparr>
        (Some (zeroStatus\<lparr>Actions := [''2024-01-03 c'', ''2024-01-01 a''],
                 HostsWithTablesCreated := [''h1'']\<rparr>)))
     = []"
proof -
  let ?opts = "\<lparr>InheritableFields = False, CopyStatusOptions.Actions = True,
      CopyStatusOptions.Errors = False, MainFields = True, Normalized = False,
      WholeStatus = False\<rparr>"
  let ?from = "zeroStatus\<lparr>Action := ''reconcile'',
                 Actions := [''2024-01-02 b'', ''2024-01-01 a''],
                 UsedTemplates := [Some 7]\<rparr>"
  let ?s = "zeroStatus\<lparr>Actions := [''2024-01-03 c'', ''2024-01-01 a''],
                 HostsWithTablesCreated := [''h1'']\<rparr>"
  have h1: "CopyStatusOptions.Actions ?opts" and h2: "\<not> InheritableFields ?opts"
    by simp_all
  have srt: "take 10 (rev (sorted_list_of_set
      (set [''2024-01-03 c'', ''2024-01-01 a''] \<union> set [''2024-01-02 b'', ''2024-01-01 a''])))
      = [''2024-01-03 c'', ''2024-01-02 b'', ''2024-01-01 a'']"
    by code_simp
  from CopyFrom_Actions_switch [OF h1 h2, of ?from ?s] obtain s'
    where r: "CopyFrom (Some ?from) ?opts (Some ?s) = Some s'"
      and a: "Actions s' = take 10 (rev (sorted_list_of_set
                (set (Actions ?s) \<union> set (Actions ?from))))"
      and h: "HostsWithTablesCreated s' = HostsWithTablesCreated ?from"
    by blast
  have "Actions s' = [''2024-01-03 c'', ''2024-01-02 b'', ''2024-01-01 a'']"
    using a srt by (simp add: zeroStatus_def)
  moreover have "HostsWithTablesCreated s' = []"
    using h by (simp add: zeroStatus_def)
  ultimately show ?thesis
    using h1 h2 r
    by (simp add: GetActions_def GetHostsWithTablesCreated_def getStringArrWithReadLock_def)
qed

section \<open>Nil receivers\<close>

text \<open>
  Claim C9. On a nil receiver every mutator does nothing (the receiver stays nil, whatever
  the arguments) and every accessor returns the zero value of its result type: the empty
  string, zero, the empty sequence, the nil pointer, false.
\<close>

theorem nil_receiver_safe:
  "Fill ver params None = None
   \<and> SetError err None = None
   \<and> SetAndPushError err None = None
   \<and> PushHostTablesCreated host None = None
   \<and> SyncHostTablesCreated None = None
   \<and> PushUsedTemplate templateRef None = None
   \<and> SetAction action None = None
   \<and> PushAction action None = None
   \<and> PushError err None = None
   \<and> SetPodIPs podIPs None = None
   \<and> HostDeleted None = None
   \<and> HostUpdated None = None
   \<and> HostAdded None = None
   \<and> HostUnchanged None = None
   \<and> HostFailed None = None
   \<and> HostCompleted None = None
   \<and> ReconcileStart deleteHostsCount None = None
   \<and> ReconcileComplete None = None
   \<and> ReconcileAbort None = None
   \<and> DeleteStart None = None
   \<and> CopyFrom f opts None = None
   \<and> ClearNormalizedCR None = None
   \<and> SetNormalizedCompletedFromCurrentNormalized None = None
   \<and> GetUsedTemplatesCount None = 0
   \<and> HasNormalizedCRCompleted None = False
   \<and> HasNormalizedCR None = False
   \<and> GetCHOpVersion None = ''''
   \<and> GetCHOpCommit None = ''''
   \<and> GetCHOpDate None = ''''
   \<and> GetCHOpIP None = ''''
   \<and> GetClustersCount None = 0
   \<and> GetShardsCount None = 0
   \<and> GetReplicasCount None = 0
   \<and> GetHostsCount None = 0
   \<and> GetStatus None = ''''
   \<and> GetTaskID None = ''''
   \<and> GetTaskIDsStarted None = []
   \<and> GetTaskIDsCompleted None = []
   \<and> GetAction None = ''''
   \<and> GetActions None = []
   \<and> GetError None = ''''
   \<and> GetErrors None = []
   \<and> GetHostsUpdatedCount None = 0
   \<and> GetHostsAddedCount None = 0
   \<and> GetHostsUnchangedCount None = 0
   \<and> GetHostsFailedCount None = 0
   \<and> GetHostsCompletedCount None = 0
   \<and> GetHostsDeletedCount None = 0
   \<and> GetHostsDeleteCount None = 0
   \<and> GetPods None = []
   \<and> GetPodIPs None = []
   \<and> GetFQDNs None = []
   \<and> GetEndpoint None = ''''
   \<and> GetNormalizedCR None = None
   \<and> GetNormalizedCRCompleted None = None
   \<and> GetHostsWithTablesCreated None = []"
  unfolding Fill_def SetError_def SetAndPushError_def PushHostTablesCreated_def
    SyncHostTablesCreated_def PushUsedTemplate_def SetAction_def PushAction_def PushError_def
    SetPodIPs_def HostDeleted_def HostUpdated_def HostAdded_def HostUnchanged_def
    HostFailed_def HostCompleted_def ReconcileStart_def ReconcileComplete_def
    ReconcileAbort_def DeleteStart_def CopyFrom_def ClearNormalizedCR_def
    SetNormalizedCompletedFromCurrentNormalized_def
    GetUsedTemplatesCount_def HasNormalizedCRCompleted_def HasNormalizedCR_def
    GetCHOpVersion_def GetCHOpCommit_def GetCHOpDate_def GetCHOpIP_def GetClustersCount_def
    GetShardsCount_def GetReplicasCount_def GetHostsCount_def GetStatus_def GetTaskID_def
    GetTaskIDsStarted_def GetTaskIDsCompleted_def GetAction_def GetActions_def GetError_def
    GetErrors_def GetHostsUpdatedCount_def GetHostsAddedCount_def GetHostsUnchangedCount_def
    GetHostsFailedCount_def GetHostsCompletedCount_def GetHostsDeletedCount_def
    GetHostsDeleteCount_def GetPods_def GetPodIPs_def GetFQDNs_def GetEndpoint_def
    GetNormalizedCR_def GetNormalizedCRCompleted_def GetHostsWithTablesCreated_def
  by (simp add: doWithWriteLock_def getIntWithReadLock_def getStringWithReadLock_def
      getInstallationWithReadLock_def getStringArrWithReadLock_def)

section \<open>Properties of the status update protocol\<close>

lemma doUpdateCRStatus_done:
  "ctx_done e t \<Longrightarrow> doUpdateCRStatus e chk opts t = (Return None, chk, ContextChecked # t)"
  by (simp add: doUpdateCRStatus_def IsContextDone_def)

lemma StatusUpdate_loop_False:
  "StatusUpdate_loop e opts False attempt err cr t = (Return err, cr, t)"
  by (subst StatusUpdate_loop.simps) simp

lemma StatusUpdate_loop_True:
  "StatusUpdate_loop e opts True attempt err cr t =
     (case doUpdateCRStatus e cr opts (Attempt attempt # t) of
        (Panic, cr1, t1) \<Rightarrow> (Panic, cr1, t1)
      | (Return None, cr1, t1) \<Rightarrow> (Return None, cr1, t1)
      | (Return (Some er), cr1, t1) \<Rightarrow>
          if attempt > 60 then (Return (Some er), cr1, t1)
          else StatusUpdate_loop e opts True (attempt + 1) (Some er) cr1 (Slept 1 # t1))"
  by (subst StatusUpdate_loop.simps)
     (auto split: prod.splits outcome.splits option.splits
        simp: Let_def StatusUpdate_loop_False)

text \<open>
  Claim C8. If the context is done when \<^verbatim>\<open>StatusUpdate\<close> is entered, the call returns
  success (a nil error) at once: the caller's resource is unchanged and the trace gains
  nothing but the look at the context, so the store is not contacted. The same holds at
  the start of every iteration of the retry loop, whatever the attempt number and the
  error of the attempt before: if the context is done at that moment, the call returns
  success, and the trace gains only the mark of the attempt and the look at the context.
\<close>

theorem StatusUpdate_cancelled:
  "(ctx_done e t \<longrightarrow> StatusUpdate e cr opts t = (Return None, cr, ContextChecked # t))
   \<and> (ctx_done e (Attempt attempt # t) \<longrightarrow>
        StatusUpdate_loop e opts True attempt err cr t
          = (Return None, cr, ContextChecked # Attempt attempt # t))"
  by (simp add: StatusUpdate_def IsContextDone_def StatusUpdate_loop_True
      doUpdateCRStatus_done)

theorem StatusUpdate_cancelled_witness:
  "ctx_done cancelled_env []
   \<and> StatusUpdate cancelled_env example_chk (example_opts False) []
       = (Return None, example_chk, [ContextChecked])
   \<and> ctx_done cancelled_asleep_env [Attempt 2, Slept 1]
   \<and> StatusUpdate_loop cancelled_asleep_env (example_opts False) True 2 (Some ''conflict'')
         example_chk [Slept 1]
       = (Return None, example_chk, [ContextChecked, Attempt 2, Slept 1])
   \<and> fst (StatusUpdate cancelled_asleep_env example_chk (example_opts False) []) = Return None
   \<and> take 3 (snd (snd (StatusUpdate cancelled_asleep_env example_chk (example_opts False) [])))
       = [ContextChecked, Attempt 2, Slept 1]"
proof -
  have 1: "ctx_done cancelled_env []" by (simp add: cancelled_env_def)
  have 2: "ctx_done cancelled_asleep_env (Attempt 2 # [Slept 1])"
    by (simp add: cancelled_asleep_env_def)
  have 3: "fst (StatusUpdate cancelled_asleep_env example_chk (example_opts False) [])
      = Return None
    \<and> take 3 (snd (snd (StatusUpdate cancelled_asleep_env example_chk (example_opts False) [])))
      = [ContextChecked, Attempt 2, Slept 1]"
    by code_simp
  show ?thesis
    using 1 2 3
      StatusUpdate_cancelled [where e = cancelled_env and t = "[]" and cr = example_chk
        and opts = "example_opts False"]
      StatusUpdate_cancelled [where e = cancelled_asleep_env and t = "[Slept 1]"
        and attempt = 2 and opts = "example_opts False" and err = "Some ''conflict''"
        and cr = example_chk]
    by simp
qed

lemma doUpdateCRStatus_fetch_failure:
  assumes "\<not> ctx_done e t"
    and "kube_get e (ContextChecked # t) (Namespace chk) (Name chk) = Inl er"
  shows "doUpdateCRStatus e chk opts t
     = (Panic, chk, Got (Namespace chk) (Name chk) # ContextChecked # t)"
  using assms
  by (simp add: doUpdateCRStatus_def IsContextDone_def NamespaceName_def CR_Get_def)

text \<open>
  Claim C1, at a failing input. With a live context and a store whose fetch returns an
  error, \<^verbatim>\<open>StatusUpdate\<close> panics, with or without tolerance of absence: \<^verbatim>\<open>CR.Get\<close>
  returns the nil interface together with the error, and \<^verbatim>\<open>doUpdateCRStatus\<close> asserts
  that value to the concrete pointer type before it looks at the error. The call returns
  neither the silent success nor the fetch error; one fetch has been made, no write.
\<close>

theorem fetch_failure_panics:
  "StatusUpdate not_found_env example_chk (example_opts True) []
     = (Panic, example_chk, [Got ''ns'' ''keeper'', ContextChecked, Attempt 1, ContextChecked])
   \<and> StatusUpdate not_found_env example_chk (example_opts False) []
     = (Panic, example_chk, [Got ''ns'' ''keeper'', ContextChecked, Attempt 1, ContextChecked])"
proof -
  have live: "\<not> ctx_done not_found_env t" for t
    by (simp add: not_found_env_def)
  have fails: "kube_get not_found_env t (Namespace example_chk) (Name example_chk)
      = Inl ''not found''" for t
    by (simp add: not_found_env_def)
  have "doUpdateCRStatus not_found_env example_chk (example_opts tolerate)
       [Attempt 1, ContextChecked]
     = (Panic, example_chk, [Got ''ns'' ''keeper'', ContextChecked, Attempt 1, ContextChecked])"
    for tolerate
    using doUpdateCRStatus_fetch_failure [OF live fails] by (simp add: example_chk_def)
  then show ?thesis
    by (simp add: StatusUpdate_def IsContextDone_def StatusUpdate_loop_True live)
qed

lemma doUpdateCRStatus_schedule:
  assumes "doUpdateCRStatus e chk opts t = (r, chk', t')"
  shows "schedule t' = schedule t"
  using assms
  by (auto simp add: doUpdateCRStatus_def IsContextDone_def CR_Get_def Status_Update_def
      NamespaceName_def schedule_def Let_def
      split: if_splits prod.splits sum.splits option.splits ICustomResource.splits)

lemma doUpdateCRStatus_error_keeps:
  assumes "doUpdateCRStatus e chk opts t = (Return (Some er), chk', t')"
  shows "chk' = chk"
  using assms
  by (auto simp add: doUpdateCRStatus_def IsContextDone_def CR_Get_def Status_Update_def
      NamespaceName_def Let_def
      split: if_splits prod.splits sum.splits option.splits ICustomResource.splits)

lemma schedule_Cons [simp]:
  "schedule (Attempt n # t) = Attempt n # schedule t"
  "schedule (Slept d # t) = Slept d # schedule t"
  "schedule (ContextChecked # t) = schedule t"
  by (simp_all add: schedule_def)

lemma retry_schedule_unfold:
  "1 \<le> a \<Longrightarrow>
     retry_schedule a = Attempt a # (if a = 1 then [] else Slept 1 # retry_schedule (a - 1))"
  by (cases a) auto

lemma StatusUpdate_loop_schedule:
  assumes "1 \<le> a" and "a \<le> 61"
    and "schedule t = (if a = 1 then [] else Slept 1 # retry_schedule (a - 1)) @ S0"
    and "StatusUpdate_loop e opts True a err cr t = (r, cr', t')"
  shows "\<exists>n. a \<le> n \<and> n \<le> 61
      \<and> schedule t' = retry_schedule n @ S0
      \<and> (\<exists>tn. doUpdateCRStatus e cr opts (Attempt n # tn) = (r, cr', t'))
      \<and> (\<forall>er. r = Return (Some er) \<longrightarrow> n = 61)"
  using assms
proof (induction "61 - a" arbitrary: a err t)
  case 0
  then have a: "a = 61" by simp
  obtain r1 cr1 t1 where d: "doUpdateCRStatus e cr opts (Attempt a # t) = (r1, cr1, t1)"
    by (cases "doUpdateCRStatus e cr opts (Attempt a # t)") auto
  have s1: "schedule t1 = retry_schedule a @ S0"
    using doUpdateCRStatus_schedule [OF d] "0.prems"(3) retry_schedule_unfold [OF "0.prems"(1)]
    by simp
  have "(r, cr', t') = (r1, cr1, t1)"
    using "0.prems"(4) d a
    by (simp add: StatusUpdate_loop_True split: outcome.splits option.splits)
  then show ?case using d s1 a by auto
next
  case (Suc k)
  then have a: "a \<le> 60" "1 \<le> a" by simp_all
  obtain r1 cr1 t1 where d: "doUpdateCRStatus e cr opts (Attempt a # t) = (r1, cr1, t1)"
    by (cases "doUpdateCRStatus e cr opts (Attempt a # t)") auto
  have s1: "schedule t1 = retry_schedule a @ S0"
    using doUpdateCRStatus_schedule [OF d] Suc.prems(3) retry_schedule_unfold [OF Suc.prems(1)]
    by simp
  show ?case
  proof (cases "\<exists>er. r1 = Return (Some er)")
    case False
    then have "(r, cr', t') = (r1, cr1, t1)"
      using Suc.prems(4) d
      by (auto simp add: StatusUpdate_loop_True split: outcome.splits option.splits)
    then show ?thesis using d s1 a False by auto
  next
    case True
    then obtain er where er: "r1 = Return (Some er)" by blast
    have cr1: "cr1 = cr" using d er doUpdateCRStatus_error_keeps by blast
    have rec: "StatusUpdate_loop e opts True (a + 1) (Some er) cr (Slept 1 # t1) = (r, cr', t')"
      using Suc.prems(4) d er cr1 a by (simp add: StatusUpdate_loop_True)
    have k: "k = 61 - (a + 1)" using Suc.hyps(2) by simp
    have pre: "schedule (Slept 1 # t1)
        = (if a + 1 = 1 then [] else Slept 1 # retry_schedule (a + 1 - 1)) @ S0"
      using s1 a by simp
    from Suc.hyps(1) [OF k _ _ pre rec] a
    obtain n where "a + 1 \<le> n" "n \<le> 61" "schedule t' = retry_schedule n @ S0"
      "\<exists>tn. doUpdateCRStatus e cr opts (Attempt n # tn) = (r, cr', t')"
      "\<forall>er. r = Return (Some er) \<longrightarrow> n = 61"
      by auto
    then show ?thesis by (intro exI [of _ n]) auto
  qed
qed

lemma StatusUpdate_schedule:
  assumes "StatusUpdate e cr opts t = (r, cr', t')"
  shows "\<exists>n. n \<le> 61
      \<and> schedule t' = retry_schedule n @ schedule t
      \<and> (n = 0 \<longrightarrow> ctx_done e t \<and> r = Return None)
      \<and> (0 < n \<longrightarrow> (\<exists>tn. doUpdateCRStatus e cr opts (Attempt n # tn) = (r, cr', t')))
      \<and> (\<forall>er. r = Return (Some er) \<longrightarrow> n = 61)"
proof (cases "ctx_done e t")
  case True
  then have "(r, cr', t') = (Return None, cr, ContextChecked # t)"
    using assms by (simp add: StatusUpdate_def IsContextDone_def)
  then show ?thesis using True by (intro exI [of _ 0]) auto
next
  case False
  then have l: "StatusUpdate_loop e opts True 1 None cr (ContextChecked # t) = (r, cr', t')"
    using assms by (simp add: StatusUpdate_def IsContextDone_def)
  have pre: "schedule (ContextChecked # t)
      = (if (1::nat) = 1 then [] else Slept 1 # retry_schedule (1 - 1)) @ schedule t"
    by simp
  from StatusUpdate_loop_schedule [OF _ _ pre l]
  obtain n where "1 \<le> n" "n \<le> 61" "schedule t' = retry_schedule n @ schedule t"
      "\<exists>tn. doUpdateCRStatus e cr opts (Attempt n # tn) = (r, cr', t')"
      "\<forall>er. r = Return (Some er) \<longrightarrow> n = 61"
    by auto
  then show ?thesis by (intro exI [of _ n]) auto
qed

lemma refusing_attempt:
  "\<exists>t1. doUpdateCRStatus refusing_env example_chk opts t
     = (Return (Some ''conflict''), example_chk, t1)"
  by (simp add: doUpdateCRStatus_def IsContextDone_def CR_Get_def Status_Update_def
      NamespaceName_def refusing_env_def Let_def)

lemma refusing_conclusion:
  assumes run: "StatusUpdate refusing_env example_chk opts [] = (r, cr', t')"
    and sched: "\<exists>n\<le>61. schedule t' = retry_schedule n @ schedule []
      \<and> (n = 0 \<longrightarrow> ctx_done refusing_env [] \<and> r = Return None)
      \<and> (0 < n \<longrightarrow> (\<exists>tn. doUpdateCRStatus refusing_env example_chk opts (Attempt n # tn)
             = (r, cr', t')))
      \<and> (\<forall>er. r = Return (Some er) \<longrightarrow> n = 61)"
  shows "r = Return (Some ''conflict'') \<and> schedule t' = retry_schedule 61"
proof -
  from sched obtain n where n: "schedule t' = retry_schedule n @ schedule []"
    "n = 0 \<longrightarrow> ctx_done refusing_env [] \<and> r = Return None"
    "0 < n \<longrightarrow> (\<exists>tn. doUpdateCRStatus refusing_env example_chk opts (Attempt n # tn)
             = (r, cr', t'))"
    "\<forall>er. r = Return (Some er) \<longrightarrow> n = 61"
    by (elim exE conjE)
  have "\<not> ctx_done refusing_env []" by (simp add: refusing_env_def)
  with n(2) have "0 < n" by blast
  with n(3) obtain tn where
    "doUpdateCRStatus refusing_env example_chk opts (Attempt n # tn) = (r, cr', t')"
    by blast
  with refusing_attempt [of opts "Attempt n # tn"] have r: "r = Return (Some ''conflict'')"
    by auto
  with n(4) have "n = 61" by blast
  with n(1) r show ?thesis by (simp add: schedule_def)
qed

lemma set_schedule: "ev \<in> set (schedule t) \<Longrightarrow> ev \<in> set t"
  by (simp add: schedule_def)

text \<open>
  Claim C2, as stated, fails: against a store that refuses every write, the loop makes a
  61st attempt before it gives up and returns the error of the last write.
\<close>

theorem StatusUpdate_61_attempts_counterexample:
  "fst (StatusUpdate refusing_env example_chk (example_opts False) [])
     = Return (Some ''conflict'')
   \<and> Attempt 61 \<in> set (snd (snd (StatusUpdate refusing_env example_chk (example_opts False) [])))"
proof -
  obtain r cr' t' where
    run: "StatusUpdate refusing_env example_chk (example_opts False) [] = (r, cr', t')"
    by (cases "StatusUpdate refusing_env example_chk (example_opts False) []") auto
  from refusing_conclusion [OF run StatusUpdate_schedule [OF run]]
  have r: "r = Return (Some ''conflict'')" and s: "schedule t' = retry_schedule 61"
    by simp_all
  have "Attempt 61 \<in> set (retry_schedule 61)"
    by (simp add: retry_schedule_unfold [of 61])
  then have "Attempt 61 \<in> set t'" using s set_schedule by metis
  then show ?thesis using run r by simp
qed

text \<open>
  Claim C2, amended. Every call of \<^verbatim>\<open>StatusUpdate\<close> makes \<open>n\<close> attempts of the inner
  get-merge-update step with \<open>n\<close> at most 61 (a first attempt and up to 60 retries). What the
  loop adds to the trace is attempt 1, a sleep of one second, attempt 2, and so on up to
  attempt \<open>n\<close>: one sleep of one second between two consecutive attempts, none after the
  last, at most 60 sleeps. No attempt is made only if the context was done at entry, and
  the call then succeeds. Otherwise the outcome of the call is the outcome of its last
  attempt, and an error is returned only by attempt 61: if every attempt fails, the call
  returns the error of the last one.
\<close>

theorem StatusUpdate_retries:
  assumes "StatusUpdate e cr opts t = (r, cr', t')"
  shows "\<exists>n\<le>61. schedule t' = retry_schedule n @ schedule t
      \<and> (n = 0 \<longrightarrow> ctx_done e t \<and> r = Return None)
      \<and> (0 < n \<longrightarrow> (\<exists>tn. doUpdateCRStatus e cr opts (Attempt n # tn) = (r, cr', t')))
      \<and> (\<forall>er. r = Return (Some er) \<longrightarrow> n = 61)"
  using assms by (rule StatusUpdate_schedule)

lemma conflict_3_run:
  "fst (StatusUpdate (conflict_env 3) example_chk (example_opts False) []) = Return None
   \<and> fst (snd (StatusUpdate (conflict_env 3) example_chk (example_opts False) []))
       = example_chk\<lparr>ResourceVersion := ''42''\<rparr>
   \<and> schedule (snd (snd (StatusUpdate (conflict_env 3) example_chk (example_opts False) [])))
       = [Attempt 4, Slept 1, Attempt 3, Slept 1, Attempt 2, Slept 1, Attempt 1]"
  by code_simp

theorem StatusUpdate_retries_witness:
  "StatusUpdate cancelled_env example_chk (example_opts False) []
     = (Return None, example_chk, [ContextChecked])
   \<and> schedule [ContextChecked] = retry_schedule 0
   \<and> fst (StatusUpdate (conflict_env 3) example_chk (example_opts False) []) = Return None
   \<and> schedule (snd (snd (StatusUpdate (conflict_env 3) example_chk (example_opts False) [])))
       = retry_schedule 4
   \<and> fst (StatusUpdate refusing_env example_chk (example_opts False) [])
       = Return (Some ''conflict'')
   \<and> schedule (snd (snd (StatusUpdate refusing_env example_chk (example_opts False) [])))
       = retry_schedule 61"
proof -
  have c: "StatusUpdate cancelled_env example_chk (example_opts False) []
     = (Return None, example_chk, [ContextChecked])"
    by (simp add: StatusUpdate_def IsContextDone_def cancelled_env_def)
  from StatusUpdate_retries [OF c]
  have c0: "schedule [ContextChecked] = retry_schedule 0"
    by (simp add: schedule_def)
  obtain r cr' t' where
    run: "StatusUpdate refusing_env example_chk (example_opts False) [] = (r, cr', t')"
    by (cases "StatusUpdate refusing_env example_chk (example_opts False) []") auto
  from refusing_conclusion [OF run StatusUpdate_retries [OF run]]
  have r: "r = Return (Some ''conflict'')" and s: "schedule t' = retry_schedule 61"
    by simp_all
  have r4: "retry_schedule 4 = [Attempt 4, Slept 1, Attempt 3, Slept 1, Attempt 2, Slept 1, Attempt 1]"
    by code_simp
  show ?thesis using c c0 run r s conflict_3_run r4 by simp
qed

end
